theory Spec2Isabelle
  imports Complex_Main
begin

section \<open>Python values seen by the handler\<close>

text \<open>
  A Python \<open>str\<close> is a sequence of Unicode code points, and \<open>len\<close> counts code
  points, so a string is a list of naturals here. \<open>ustr\<close> reads an ASCII literal of the
  source as such a list.
\<close>

type_synonym pystr = "nat list"

definition ustr :: "string \<Rightarrow> pystr" where
  "ustr s = map of_char s"

definition apos :: pystr where
  "apos = [39]"

definition dquote :: pystr where
  "dquote = [34]"

text \<open>
  What \<open>request.get_json()\<close> can return: the Python image of a JSON document. The
  handler only ever asks a float whether it is zero, so a float is a rational, an
  infinity or a NaN. A dict is the list of its items.
\<close>

datatype pyfloat = Finite rat | PosInf | NegInf | NaN

datatype pyval =
    PNone
  | PBool bool
  | PInt int
  | PFloat pyfloat
  | PStr pystr
  | PList "pyval list"
  | PDict "(pystr \<times> pyval) list"

text \<open>
  An instance of Python's \<open>Exception\<close>, by what the handler reads of it:
  \<open>str(type(e))\<close>, \<open>str(e)\<close>, and the attribute \<open>e.message\<close> when
  \<open>hasattr(e, 'message')\<close> holds (a string, as in the Google API errors). Both
  handlers of the route are \<open>except Exception\<close>, so what is not an instance of
  \<open>Exception\<close> (\<open>KeyboardInterrupt\<close>, \<open>SystemExit\<close>) has no place in
  this type.
\<close>

record exn =
  exn_type :: pystr
  exn_str :: pystr
  exn_message :: "pystr option"

fun type_name :: "pyval \<Rightarrow> pystr" where
  "type_name PNone = ustr ''NoneType''"
| "type_name (PBool _) = ustr ''bool''"
| "type_name (PInt _) = ustr ''int''"
| "type_name (PFloat _) = ustr ''float''"
| "type_name (PStr _) = ustr ''str''"
| "type_name (PList _) = ustr ''list''"
| "type_name (PDict _) = ustr ''dict''"

definition AttributeError :: "pyval \<Rightarrow> pystr \<Rightarrow> exn" where
  "AttributeError v attr =
     \<lparr>exn_type = ustr ''<class '' @ apos @ ustr ''AttributeError'' @ apos @ ustr ''>'',
      exn_str = apos @ type_name v @ apos @ ustr '' object has no attribute '' @ apos @ attr @ apos,
      exn_message = None\<rparr>"

definition TypeError_len :: "pyval \<Rightarrow> exn" where
  "TypeError_len v =
     \<lparr>exn_type = ustr ''<class '' @ apos @ ustr ''TypeError'' @ apos @ ustr ''>'',
      exn_str = ustr ''object of type '' @ apos @ type_name v @ apos @ ustr '' has no len()'',
      exn_message = None\<rparr>"

text \<open>Truth value testing, as \<open>not user_prompt\<close> applies it.\<close>

fun truthy :: "pyval \<Rightarrow> bool" where
  "truthy PNone = False"
| "truthy (PBool b) = b"
| "truthy (PInt i) = (i \<noteq> 0)"
| "truthy (PFloat f) = (f \<noteq> Finite 0)"
| "truthy (PStr s) = (s \<noteq> [])"
| "truthy (PList xs) = (xs \<noteq> [])"
| "truthy (PDict kv) = (kv \<noteq> [])"

text \<open>\<open>data.get(key)\<close>: only a dict has the method; a missing key gives \<open>None\<close>.\<close>

fun data_get :: "pyval \<Rightarrow> pystr \<Rightarrow> exn + pyval" where
  "data_get (PDict kv) key = Inr (case map_of kv key of None \<Rightarrow> PNone | Some v \<Rightarrow> v)"
| "data_get v key = Inl (AttributeError v (ustr ''get''))"

text \<open>\<open>len(v)\<close>: defined on strings, lists and dicts, a \<open>TypeError\<close> elsewhere.\<close>

fun py_len :: "pyval \<Rightarrow> exn + nat" where
  "py_len (PStr s) = Inr (length s)"
| "py_len (PList xs) = Inr (length xs)"
| "py_len (PDict kv) = Inr (length (remdups (map fst kv)))"
| "py_len v = Inl (TypeError_len v)"

text \<open>
  The value a replacement field \<open>{v}\<close> of an f-string contributes: a string stands for
  itself; for any other value it is Python's \<open>str(v)\<close>, which is taken as the
  parameter \<open>py_str\<close>.
\<close>

fun format_value :: "(pyval \<Rightarrow> pystr) \<Rightarrow> pyval \<Rightarrow> pystr" where
  "format_value py_str (PStr s) = s"
| "format_value py_str v = py_str v"

text \<open>The substring test \<open>needle in hay\<close> on strings.\<close>

fun py_in :: "pystr \<Rightarrow> pystr \<Rightarrow> bool" where
  "py_in needle [] = (needle = [])"
| "py_in needle (c # cs) = (take (length needle) (c # cs) = needle \<or> py_in needle cs)"

text \<open>\<open>str.isspace\<close> on one code point, and \<open>str.strip()\<close> without arguments.\<close>

definition isspace :: "nat \<Rightarrow> bool" where
  "isspace c \<longleftrightarrow>
     (9 \<le> c \<and> c \<le> 13) \<or> (28 \<le> c \<and> c \<le> 32) \<or> c = 133 \<or> c = 160 \<or> c = 5760 \<or>
     (8192 \<le> c \<and> c \<le> 8202) \<or> c = 8232 \<or> c = 8233 \<or> c = 8239 \<or> c = 8287 \<or> c = 12288"

definition strip :: "pystr \<Rightarrow> pystr" where
  "strip s = rev (dropWhile isspace (rev (dropWhile isspace s)))"


section \<open>The remote service\<close>

text \<open>
  \<open>genai.types.GenerationConfig\<close>: every field is optional and unset unless the
  call passes it. The two decimal literals are kept as the rationals they denote.
\<close>

record generation_config =
  candidate_count :: "nat option"
  stop_sequences :: "pystr list option"
  max_output_tokens :: "nat option"
  temperature :: "rat option"
  top_p :: "rat option"
  top_k :: "nat option"

text \<open>
  Modelled from the spec: the library's default for a configuration that leaves
  \<open>candidate_count\<close> unset, which is not part of the source. The spec speaks of a
  single candidate, and the source records the same default next to the field it leaves
  out (\<^verbatim>\<open># candidate_count=1, # Default is 1\<close>).
\<close>

definition requested_candidates :: "generation_config \<Rightarrow> nat" where
  "requested_candidates c = (case candidate_count c of None \<Rightarrow> 1 | Some n \<Rightarrow> n)"

text \<open>
  The response object, by what the handler reads of it. A block reason is a member of
  an integer enumeration, with its value and its name, or a plain \<open>int\<close>: the
  library hands out the bare number for a value its enumeration does not know. Either
  is false exactly when the value is 0, and only a member has the attribute
  \<open>name\<close>. \<open>response.text\<close> is a property that may raise.
\<close>

datatype block_reason = EnumMember int pystr | PlainInt int

fun br_true :: "block_reason \<Rightarrow> bool" where
  "br_true (EnumMember v nm) = (v \<noteq> 0)"
| "br_true (PlainInt v) = (v \<noteq> 0)"

fun br_name :: "block_reason \<Rightarrow> exn + pystr" where
  "br_name (EnumMember v nm) = Inr nm"
| "br_name (PlainInt v) = Inl (AttributeError (PInt v) (ustr ''name''))"

record prompt_feedback =
  block_reason :: block_reason

datatype candidate = Candidate pystr

record gen_response =
  candidates :: "candidate list"
  prompt_feedback :: "prompt_feedback option"
  resp_text :: "exn + pystr"

text \<open>
  The model handle, as its method \<open>generate_content\<close>. A call reaches the remote
  service: it takes the state \<open>'r\<close> of the service to a new one, and returns a
  response or raises. The route touches the service through this function only, so the
  state it hands back tells which calls were made.
\<close>

type_synonym 'r generative_model =
  "pystr \<Rightarrow> generation_config \<Rightarrow> 'r \<Rightarrow> 'r \<times> (exn + gen_response)"

type_synonym remote_call = "pystr \<times> generation_config"


section \<open>Start-up\<close>

text \<open>
  The module's globals after import. \<open>google_api_key\<close> is what \<open>os.getenv\<close>
  returned, or \<open>None\<close>; \<open>model\<close> is the handle or \<open>None\<close>.
\<close>

record 'r server =
  google_api_key :: "pystr option"
  model :: "'r generative_model option"

definition MODEL_NAME :: pystr where
  "MODEL_NAME = ustr ''gemini-1.5-flash-latest''"

text \<open>What the start-up code calls: the environment and the two library entry points.\<close>

record 'r environment =
  getenv_GOOGLE_API_KEY :: "pystr option"
  configure :: "pystr \<Rightarrow> exn option"
  GenerativeModel :: "pystr \<Rightarrow> exn + 'r generative_model"

text \<open>The truth value of \<open>google_api_key\<close>: \<open>None\<close> and the empty string are false.\<close>

definition key_set :: "pystr option \<Rightarrow> bool" where
  "key_set k = (case k of None \<Rightarrow> False | Some s \<Rightarrow> s \<noteq> [])"

definition configure_key :: "'r environment \<Rightarrow> pystr option" where
  "configure_key env =
     (case getenv_GOOGLE_API_KEY env of
        None \<Rightarrow> None
      | Some k \<Rightarrow>
          if k = [] then Some k
          else (case configure env k of
                  None \<Rightarrow> Some k
                | Some e \<Rightarrow> None))"

definition init_model :: "'r environment \<Rightarrow> pystr option \<Rightarrow> 'r generative_model option" where
  "init_model env key =
     (if key_set key
      then (case GenerativeModel env MODEL_NAME of
              Inr m \<Rightarrow> Some m
            | Inl e \<Rightarrow> None)
      else None)"

definition startup :: "'r environment \<Rightarrow> 'r server" where
  "startup env =
     (let key = configure_key env
      in \<lparr>google_api_key = key, model = init_model env key\<rparr>)"


section \<open>The routes\<close>

type_synonym json_body = "(pystr \<times> pystr) list"

type_synonym response = "json_body \<times> nat"

text \<open>\<open>jsonify(body)\<close> returned alone is a response with status 200.\<close>

definition jsonify :: "json_body \<Rightarrow> response" where
  "jsonify body = (body, 200)"

text \<open>
  The page route: \<open>render_template\<close> is Flask's, and raises when the template is
  absent; a page returned alone is a response with status 200.
\<close>

definition index :: "(pystr \<Rightarrow> exn + pystr) \<Rightarrow> exn + pystr \<times> nat" where
  "index render_template =
     (case render_template (ustr ''index.html'') of
        Inl e \<Rightarrow> Inl e
      | Inr html \<Rightarrow> Inr (html, 200))"

record request =
  get_json :: "exn + pyval"

definition full_prompt :: "pystr \<Rightarrow> pystr" where
  "full_prompt prompt_text =
     ustr ''You are a creative storyteller.\<newline>User's story starter: '' @ dquote @
     prompt_text @ dquote @
     ustr ''\<newline>Continue this story, making it engaging and imaginative. Keep the continuation concise, around 150-200 words.\<newline>Story continuation:''"

definition generation_config :: generation_config where
  "generation_config =
     \<lparr>candidate_count = None, stop_sequences = None, max_output_tokens = Some 300,
      temperature = Some (8 / 10), top_p = Some (95 / 100), top_k = Some 40\<rparr>"

text \<open>
  Lines 100 to 112, on the response the call returned: an early \<open>return\<close>, the
  story, or an exception. Reading the name of a block reason is part of it.
\<close>

datatype inner = Return response | Story pystr

definition block_reason_msg :: "gen_response \<Rightarrow> exn + pystr" where
  "block_reason_msg response =
     (case prompt_feedback response of
        None \<Rightarrow> Inr (ustr ''Content generation blocked. The prompt might have violated safety guidelines or resulted in no valid output.'')
      | Some fb \<Rightarrow>
          if br_true (block_reason fb)
          then (case br_name (block_reason fb) of
                  Inl e \<Rightarrow> Inl e
                | Inr nm \<Rightarrow> Inr (ustr ''Content generation blocked due to: '' @ nm))
          else Inr (ustr ''Content generation blocked. The prompt might have violated safety guidelines or resulted in no valid output.''))"

definition read_response :: "gen_response \<Rightarrow> exn + inner" where
  "read_response response =
     (if candidates response = []
      then (case block_reason_msg response of
              Inl e \<Rightarrow> Inl e
            | Inr msg \<Rightarrow> Inr (Return ([(ustr ''error'', msg)], 400)))
      else (case resp_text response of
              Inl e \<Rightarrow> Inl e
            | Inr t \<Rightarrow>
                let story_continuation = strip t
                in if story_continuation = []
                   then Inr (Story (ustr ''The AI couldn't come up with a story continuation this time. Try a different prompt!''))
                   else Inr (Story story_continuation)))"

text \<open>
  The body of the inner \<open>try\<close>: the one place where the handle is applied. What
  the call raises, and what reading the response raises, both leave it as \<open>Inl\<close>.
\<close>

definition call_gemini :: "'r generative_model \<Rightarrow> pystr \<Rightarrow> 'r \<Rightarrow> 'r \<times> (exn + inner)" where
  "call_gemini m prompt_text r =
     (case m prompt_text generation_config r of
        (r', Inl e) \<Rightarrow> (r', Inl e)
      | (r', Inr response) \<Rightarrow> (r', read_response response))"

text \<open>The handler of \<open>except Exception as e_gemini\<close>.\<close>

definition gemini_error :: "exn \<Rightarrow> response" where
  "gemini_error e_gemini =
     (let error_message = (case exn_message e_gemini of
                             Some msg \<Rightarrow> msg
                           | None \<Rightarrow> exn_str e_gemini);
          (error_message, status_code) =
            (if py_in (ustr ''API key not valid'') error_message \<or>
                py_in (ustr ''PermissionDenied'') (exn_type e_gemini)
             then (ustr ''Authentication with Google AI service failed. Check your API key.'', 401)
             else if py_in (ustr ''Quota'') error_message \<or>
                     py_in (ustr ''ResourceExhausted'') (exn_type e_gemini)
             then (ustr ''Google AI service quota exceeded. Please check your usage or try again later.'', 429)
             else if py_in (ustr ''Invalid'') error_message \<or>
                     py_in (ustr ''BadRequest'') (exn_type e_gemini)
             then (ustr ''Invalid request to Google AI service: '' @ error_message, 400)
             else (error_message, 500))
      in ([(ustr ''error'', ustr ''An error occurred with the Google AI service: '' @ error_message)],
          status_code))"

text \<open>
  What the route returns once the inner \<open>try\<close> is over: the classified failure,
  the early \<open>return\<close>, or the story (line 140).
\<close>

definition answer :: "exn + inner \<Rightarrow> response" where
  "answer out =
     (case out of
        Inl e_gemini \<Rightarrow> gemini_error e_gemini
      | Inr (Return x) \<Rightarrow> x
      | Inr (Story story_continuation) \<Rightarrow> jsonify [(ustr ''story'', story_continuation)])"

text \<open>
  The body of the outer \<open>try\<close>, from the state of the remote service to the state
  after it: an exception that leaves the body is \<open>Inl\<close>.
\<close>

definition handler_body ::
  "(pyval \<Rightarrow> pystr) \<Rightarrow> 'r generative_model \<Rightarrow> request \<Rightarrow> 'r \<Rightarrow> 'r \<times> (exn + response)" where
  "handler_body py_str m req r =
     (case get_json req of
        Inl e \<Rightarrow> (r, Inl e)
      | Inr data \<Rightarrow>
          (case data_get data (ustr ''prompt'') of
             Inl e \<Rightarrow> (r, Inl e)
           | Inr user_prompt \<Rightarrow>
               if \<not> truthy user_prompt
               then (r, Inr ([(ustr ''error'', ustr ''Prompt is missing'')], 400))
               else (case py_len user_prompt of
                       Inl e \<Rightarrow> (r, Inl e)
                     | Inr n \<Rightarrow>
                         if n > 2000
                         then (r, Inr ([(ustr ''error'', ustr ''Prompt is too long (max 2000 characters for this demo)'')], 400))
                         else
                           (case call_gemini m (full_prompt (format_value py_str user_prompt)) r of
                              (r', out) \<Rightarrow> (r', Inr (answer out))))))"

definition generate_story_api ::
  "(pyval \<Rightarrow> pystr) \<Rightarrow> 'r server \<Rightarrow> request \<Rightarrow> 'r \<Rightarrow> 'r \<times> response" where
  "generate_story_api py_str srv req r =
     (if \<not> key_set (google_api_key srv)
      then (r, ([(ustr ''error'', ustr ''Google API key not configured on the server.'')], 500))
      else (case model srv of
              None \<Rightarrow>
                (r, ([(ustr ''error'',
                       ustr ''Google Gemini model '' @ apos @ MODEL_NAME @ apos @
                       ustr '' not initialized. Check server logs.'')], 500))
            | Some m \<Rightarrow>
                (case handler_body py_str m req r of
                   (r', Inr x) \<Rightarrow> (r', x)
                 | (r', Inl e) \<Rightarrow>
                     (r', ([(ustr ''error'',
                             ustr ''An internal server error occurred: '' @ exn_str e)], 500)))))"


section \<open>Sample inputs\<close>

text \<open>
  A stub service that records the calls it receives and has one fixed outcome, a server
  configured with it, and requests whose body is a given JSON value.
\<close>

definition sample_str :: "pyval \<Rightarrow> pystr" where
  "sample_str v = ustr ''?''"

definition stub_model :: "exn + gen_response \<Rightarrow> remote_call list generative_model" where
  "stub_model outcome p c calls = (calls @ [(p, c)], outcome)"

definition stub_server :: "exn + gen_response \<Rightarrow> remote_call list server" where
  "stub_server outcome =
     \<lparr>google_api_key = Some (ustr ''test-key''), model = Some (stub_model outcome)\<rparr>"

definition post :: "pyval \<Rightarrow> request" where
  "post v = \<lparr>get_json = Inr v\<rparr>"

definition post_prompt :: "pystr \<Rightarrow> request" where
  "post_prompt s = post (PDict [(ustr ''prompt'', PStr s)])"

definition one_candidate :: "pystr \<Rightarrow> gen_response" where
  "one_candidate t = \<lparr>candidates = [Candidate t], prompt_feedback = None, resp_text = Inr t\<rparr>"

definition no_candidates :: "prompt_feedback option \<Rightarrow> gen_response" where
  "no_candidates fb =
     \<lparr>candidates = [], prompt_feedback = fb,
      resp_text = Inl \<lparr>exn_type = ustr ''<class '' @ apos @ ustr ''ValueError'' @ apos @ ustr ''>'',
                        exn_str = ustr ''no candidates'', exn_message = None\<rparr>\<rparr>"

definition quota_exn :: exn where
  "quota_exn =
     \<lparr>exn_type = ustr ''<class '' @ apos @ ustr ''google.api_core.exceptions.ResourceExhausted'' @ apos @ ustr ''>'',
      exn_str = ustr ''429 Quota exceeded for this project'',
      exn_message = Some (ustr ''Quota exceeded for this project'')\<rparr>"

definition bad_request_exn :: exn where
  "bad_request_exn =
     \<lparr>exn_type = ustr ''<class '' @ apos @ ustr ''werkzeug.exceptions.BadRequest'' @ apos @ ustr ''>'',
      exn_str = ustr ''400 Bad Request: The browser (or proxy) sent a request that this server could not understand.'',
      exn_message = None\<rparr>"

definition unset_environment :: "remote_call list environment" where
  "unset_environment =
     \<lparr>getenv_GOOGLE_API_KEY = None,
      configure = (\<lambda>k. None),
      GenerativeModel = (\<lambda>name. Inr (stub_model (Inr (one_candidate (ustr ''x'')))))\<rparr>"


section \<open>Strings and the way to the remote call\<close>

lemma ustr_eq_iff: "ustr a = ustr b \<longleftrightarrow> a = b"
  unfolding ustr_def by (simp add: inj_map_eq_map inj_on_def)

lemma ustr_Nil_iff: "ustr a = [] \<longleftrightarrow> a = []"
  by (simp add: ustr_def)

lemma ustr_append_neq_Nil: "s \<noteq> [] \<Longrightarrow> ustr s @ t \<noteq> []"
  by (simp add: ustr_def)

lemma py_in_iff: "py_in needle hay \<longleftrightarrow> (\<exists>p s. hay = p @ needle @ s)"
proof (induction hay)
  case Nil
  then show ?case by auto
next
  case (Cons c cs)
  show ?case
  proof
    assume "py_in needle (c # cs)"
    then consider "take (length needle) (c # cs) = needle" | "py_in needle cs" by auto
    then show "\<exists>p s. c # cs = p @ needle @ s"
    proof cases
      case 1
      then have "c # cs = [] @ needle @ drop (length needle) (c # cs)"
        by (metis append_Nil append_take_drop_id)
      then show ?thesis by blast
    next
      case 2
      with Cons.IH obtain p s where "cs = p @ needle @ s" by blast
      then have "c # cs = (c # p) @ needle @ s" by simp
      then show ?thesis by blast
    qed
  next
    assume "\<exists>p s. c # cs = p @ needle @ s"
    then obtain p s where eq: "c # cs = p @ needle @ s" by blast
    show "py_in needle (c # cs)"
    proof (cases p)
      case Nil
      with eq have "take (length needle) (c # cs) = needle" by simp
      then show ?thesis by simp
    next
      case (Cons a p')
      with eq have "cs = p' @ needle @ s" by simp
      with Cons.IH have "py_in needle cs" by blast
      then show ?thesis by simp
    qed
  qed
qed

text \<open>
  The inner \<open>try\<close> applies the handle once, to the prompt it is given and the fixed
  configuration: its state is the state of that call, and its result is read off the
  outcome of that call.
\<close>

lemma call_gemini_eq:
  "call_gemini m p r =
     (fst (m p generation_config r),
      (case snd (m p generation_config r) of
         Inl e \<Rightarrow> Inl e
       | Inr response \<Rightarrow> read_response response))"
  by (simp add: call_gemini_def split: prod.splits sum.splits)

lemma api_reaches_call:
  assumes "key_set (google_api_key srv)" and "model srv = Some m"
    and "get_json req = Inr data"
    and "data_get data (ustr ''prompt'') = Inr user_prompt"
    and "truthy user_prompt"
    and "py_len user_prompt = Inr n" and "n \<le> 2000"
  shows "generate_story_api py_str srv req r =
           (fst (m (full_prompt (format_value py_str user_prompt)) generation_config r),
            answer (case snd (m (full_prompt (format_value py_str user_prompt)) generation_config r) of
                      Inl e \<Rightarrow> Inl e
                    | Inr response \<Rightarrow> read_response response))"
  using assms
  by (simp add: generate_story_api_def handler_body_def call_gemini_eq)


section \<open>Failures of the remote call\<close>

lemma gemini_error_cases:
  fixes e :: exn
  defines "detail \<equiv> (case exn_message e of Some msg \<Rightarrow> msg | None \<Rightarrow> exn_str e)"
  defines "auth \<equiv> py_in (ustr ''API key not valid'') detail \<or> py_in (ustr ''PermissionDenied'') (exn_type e)"
  defines "quota \<equiv> py_in (ustr ''Quota'') detail \<or> py_in (ustr ''ResourceExhausted'') (exn_type e)"
  defines "invalid \<equiv> py_in (ustr ''Invalid'') detail \<or> py_in (ustr ''BadRequest'') (exn_type e)"
  shows "gemini_error e =
     (if auth then
        ([(ustr ''error'', ustr ''An error occurred with the Google AI service: '' @
             ustr ''Authentication with Google AI service failed. Check your API key.'')], 401)
      else if quota then
        ([(ustr ''error'', ustr ''An error occurred with the Google AI service: '' @
             ustr ''Google AI service quota exceeded. Please check your usage or try again later.'')], 429)
      else if invalid then
        ([(ustr ''error'', ustr ''An error occurred with the Google AI service: '' @
             ustr ''Invalid request to Google AI service: '' @ detail)], 400)
      else
        ([(ustr ''error'', ustr ''An error occurred with the Google AI service: '' @ detail)], 500))"
  unfolding gemini_error_def detail_def auth_def quota_def invalid_def
  by (simp add: Let_def)

text \<open>
  Claim C1. When the remote call raises, the route classifies the failure by substring
  tests on its message (\<open>e.message\<close> when the attribute exists, \<open>str(e)\<close>
  otherwise) and on the name of its type, in a fixed order: an authentication or
  permission marker gives status 401 with a fixed authentication-failed message;
  otherwise a quota or resource-exhaustion marker gives 429 with a fixed
  quota-exceeded message; otherwise an invalid-request marker gives 400 with a message
  that contains the underlying detail; otherwise the status is 500 and the message
  contains the underlying detail.
\<close>

theorem remote_failure_classified:
  fixes e :: exn
  defines "detail \<equiv> (case exn_message e of Some msg \<Rightarrow> msg | None \<Rightarrow> exn_str e)"
  defines "auth \<equiv> py_in (ustr ''API key not valid'') detail \<or> py_in (ustr ''PermissionDenied'') (exn_type e)"
  defines "quota \<equiv> py_in (ustr ''Quota'') detail \<or> py_in (ustr ''ResourceExhausted'') (exn_type e)"
  defines "invalid \<equiv> py_in (ustr ''Invalid'') detail \<or> py_in (ustr ''BadRequest'') (exn_type e)"
  assumes "key_set (google_api_key srv)" and "model srv = Some m"
    and "get_json req = Inr data"
    and "data_get data (ustr ''prompt'') = Inr user_prompt"
    and "truthy user_prompt"
    and "py_len user_prompt = Inr n" and "n \<le> 2000"
    and "snd (m (full_prompt (format_value py_str user_prompt)) generation_config r) = Inl e"
  shows "snd (generate_story_api py_str srv req r) =
     (if auth then
        ([(ustr ''error'', ustr ''An error occurred with the Google AI service: '' @
             ustr ''Authentication with Google AI service failed. Check your API key.'')], 401)
      else if quota then
        ([(ustr ''error'', ustr ''An error occurred with the Google AI service: '' @
             ustr ''Google AI service quota exceeded. Please check your usage or try again later.'')], 429)
      else if invalid then
        ([(ustr ''error'', ustr ''An error occurred with the Google AI service: '' @
             ustr ''Invalid request to Google AI service: '' @ detail)], 400)
      else
        ([(ustr ''error'', ustr ''An error occurred with the Google AI service: '' @ detail)], 500))"
proof -
  have "snd (generate_story_api py_str srv req r) = gemini_error e"
    using api_reaches_call [OF assms(5-11), of py_str r] assms(12) by (simp add: answer_def)
  then show ?thesis
    unfolding detail_def auth_def quota_def invalid_def
    by (simp only: gemini_error_cases)
qed

theorem remote_failure_classified_witness:
  "key_set (google_api_key (stub_server (Inl quota_exn))) \<and>
   model (stub_server (Inl quota_exn)) = Some (stub_model (Inl quota_exn)) \<and>
   snd (generate_story_api sample_str (stub_server (Inl quota_exn))
          (post_prompt (ustr ''Once upon a time'')) []) =
     ([(ustr ''error'', ustr ''An error occurred with the Google AI service: '' @
          ustr ''Google AI service quota exceeded. Please check your usage or try again later.'')], 429)"
proof -
  have k: "key_set (google_api_key (stub_server (Inl quota_exn)))"
    by (simp add: stub_server_def key_set_def ustr_def)
  have m: "model (stub_server (Inl quota_exn)) = Some (stub_model (Inl quota_exn))"
    by (simp add: stub_server_def)
  have j: "get_json (post_prompt (ustr ''Once upon a time'')) =
             Inr (PDict [(ustr ''prompt'', PStr (ustr ''Once upon a time''))])"
    by (simp add: post_prompt_def post_def)
  have g: "data_get (PDict [(ustr ''prompt'', PStr (ustr ''Once upon a time''))]) (ustr ''prompt'') =
             Inr (PStr (ustr ''Once upon a time''))"
    by simp
  have t: "truthy (PStr (ustr ''Once upon a time''))"
    by (simp add: ustr_def)
  have l: "py_len (PStr (ustr ''Once upon a time'')) = Inr 16"
    by (simp add: ustr_def)
  have n: "(16::nat) \<le> 2000" by simp
  have r: "snd (stub_model (Inl quota_exn)
             (full_prompt (format_value sample_str (PStr (ustr ''Once upon a time''))))
             generation_config []) = Inl quota_exn"
    by (simp add: stub_model_def)
  have a: "\<not> py_in (ustr ''API key not valid'') (ustr ''Quota exceeded for this project'')"
    by (simp add: ustr_def)
  have a': "\<not> py_in (ustr ''PermissionDenied'') (exn_type quota_exn)"
    by (simp add: ustr_def quota_exn_def apos_def)
  have q: "py_in (ustr ''Quota'') (ustr ''Quota exceeded for this project'')"
    by (simp add: ustr_def)
  show ?thesis
    using remote_failure_classified [OF k m j g t l n r] k m a a' q
    by (simp add: quota_exn_def)
qed


section \<open>The input gate\<close>

lemma api_prompt_missing:
  assumes "key_set (google_api_key srv)" and "model srv = Some m"
    and "get_json req = Inr data"
    and "data_get data (ustr ''prompt'') = Inr user_prompt"
    and "\<not> truthy user_prompt"
  shows "generate_story_api py_str srv req r =
           (r, ([(ustr ''error'', ustr ''Prompt is missing'')], 400))"
  using assms
  by (simp add: generate_story_api_def handler_body_def)

lemma api_prompt_too_long:
  assumes "key_set (google_api_key srv)" and "model srv = Some m"
    and "get_json req = Inr data"
    and "data_get data (ustr ''prompt'') = Inr user_prompt"
    and "truthy user_prompt"
    and "py_len user_prompt = Inr n" and "2000 < n"
  shows "generate_story_api py_str srv req r =
           (r, ([(ustr ''error'', ustr ''Prompt is too long (max 2000 characters for this demo)'')], 400))"
  using assms
  by (simp add: generate_story_api_def handler_body_def)

text \<open>
  Claim C2. On a configured server and a JSON object as body: a prompt string of 1 to
  2000 characters passes the gate and the remote service is invoked, that is, the state
  of the service after the route is the state the call of the handle on the templated
  prompt leaves, and the answer is read off what that call returned or raised. A missing
  prompt, an empty one and one longer than 2000 characters each give status 400 and leave
  the service in the state it was in, whatever the handle would do: it is never called.
  The missing prompt gives exactly the body \<open>{"error": "Prompt is missing"}\<close>.
\<close>

theorem prompt_length_gate:
  assumes "key_set (google_api_key srv)" and "model srv = Some m"
    and "get_json req = Inr (PDict kv)"
  shows "(map_of kv (ustr ''prompt'') = None \<longrightarrow>
            generate_story_api py_str srv req r =
              (r, ([(ustr ''error'', ustr ''Prompt is missing'')], 400))) \<and>
         (map_of kv (ustr ''prompt'') = Some (PStr []) \<longrightarrow>
            generate_story_api py_str srv req r =
              (r, ([(ustr ''error'', ustr ''Prompt is missing'')], 400))) \<and>
         (map_of kv (ustr ''prompt'') = Some (PStr s) \<and> 2000 < length s \<longrightarrow>
            generate_story_api py_str srv req r =
              (r, ([(ustr ''error'', ustr ''Prompt is too long (max 2000 characters for this demo)'')], 400))) \<and>
         (map_of kv (ustr ''prompt'') = Some (PStr s) \<and> 1 \<le> length s \<and> length s \<le> 2000 \<longrightarrow>
            generate_story_api py_str srv req r =
              (fst (m (full_prompt s) generation_config r),
               answer (case snd (m (full_prompt s) generation_config r) of
                         Inl e \<Rightarrow> Inl e
                       | Inr response \<Rightarrow> read_response response)))"
proof (intro conjI impI)
  assume "map_of kv (ustr ''prompt'') = None"
  then have "data_get (PDict kv) (ustr ''prompt'') = Inr PNone" by simp
  then show "generate_story_api py_str srv req r =
      (r, ([(ustr ''error'', ustr ''Prompt is missing'')], 400))"
    using api_prompt_missing [OF assms, of PNone py_str r] by simp
next
  assume "map_of kv (ustr ''prompt'') = Some (PStr [])"
  then have "data_get (PDict kv) (ustr ''prompt'') = Inr (PStr [])" by simp
  then show "generate_story_api py_str srv req r =
      (r, ([(ustr ''error'', ustr ''Prompt is missing'')], 400))"
    using api_prompt_missing [OF assms, of "PStr []" py_str r] by simp
next
  assume a: "map_of kv (ustr ''prompt'') = Some (PStr s) \<and> 2000 < length s"
  then have g: "data_get (PDict kv) (ustr ''prompt'') = Inr (PStr s)" by simp
  from a have t: "truthy (PStr s)" by auto
  have l: "py_len (PStr s) = Inr (length s)" by simp
  from a have n: "2000 < length s" by simp
  show "generate_story_api py_str srv req r =
      (r, ([(ustr ''error'', ustr ''Prompt is too long (max 2000 characters for this demo)'')], 400))"
    by (rule api_prompt_too_long [OF assms g t l n])
next
  assume a: "map_of kv (ustr ''prompt'') = Some (PStr s) \<and> 1 \<le> length s \<and> length s \<le> 2000"
  then have g: "data_get (PDict kv) (ustr ''prompt'') = Inr (PStr s)" by simp
  from a have t: "truthy (PStr s)" by auto
  have l: "py_len (PStr s) = Inr (length s)" by simp
  from a have n: "length s \<le> 2000" by simp
  show "generate_story_api py_str srv req r =
      (fst (m (full_prompt s) generation_config r),
       answer (case snd (m (full_prompt s) generation_config r) of
                 Inl e \<Rightarrow> Inl e
               | Inr response \<Rightarrow> read_response response))"
    using api_reaches_call [OF assms g t l n, of py_str r] by simp
qed

theorem prompt_length_gate_witness:
  "generate_story_api sample_str (stub_server (Inr (one_candidate (ustr ''x'')))) (post (PDict [])) [] =
     ([], ([(ustr ''error'', ustr ''Prompt is missing'')], 400)) \<and>
   generate_story_api sample_str (stub_server (Inr (one_candidate (ustr ''x''))))
       (post (PDict [(ustr ''prompt'', PStr [])])) [] =
     ([], ([(ustr ''error'', ustr ''Prompt is missing'')], 400)) \<and>
   generate_story_api sample_str (stub_server (Inr (one_candidate (ustr ''x''))))
       (post (PDict [(ustr ''prompt'', PStr (replicate 2001 97))])) [] =
     ([], ([(ustr ''error'', ustr ''Prompt is too long (max 2000 characters for this demo)'')], 400)) \<and>
   generate_story_api sample_str (stub_server (Inr (one_candidate (ustr ''x''))))
       (post (PDict [(ustr ''prompt'', PStr (replicate 2000 97))])) [] =
     ([(full_prompt (replicate 2000 97), generation_config)], ([(ustr ''story'', ustr ''x'')], 200))"
proof -
  let ?srv = "stub_server (Inr (one_candidate (ustr ''x'')))"
  have k: "key_set (google_api_key ?srv)"
    by (simp add: stub_server_def key_set_def ustr_def)
  have m: "model ?srv = Some (stub_model (Inr (one_candidate (ustr ''x''))))"
    by (simp add: stub_server_def)
  have j: "get_json (post (PDict kv)) = Inr (PDict kv)" for kv
    by (simp add: post_def)
  have x: "strip (ustr ''x'') = ustr ''x''"
    by (simp add: strip_def isspace_def ustr_def)
  have a: "answer (read_response (one_candidate (ustr ''x''))) = ([(ustr ''story'', ustr ''x'')], 200)"
    by (simp add: answer_def read_response_def one_candidate_def x jsonify_def ustr_Nil_iff)
  show ?thesis
    using prompt_length_gate [OF k m j, of "[]" sample_str "[]" "[]"]
      prompt_length_gate [OF k m j, of "[(ustr ''prompt'', PStr [])]" sample_str "[]" "[]"]
      prompt_length_gate [OF k m j, of "[(ustr ''prompt'', PStr (replicate 2001 97))]" sample_str "[]"
        "replicate 2001 97"]
      prompt_length_gate [OF k m j, of "[(ustr ''prompt'', PStr (replicate 2000 97))]" sample_str "[]"
        "replicate 2000 97"]
      a
    by (simp add: stub_model_def)
qed


section \<open>A server that failed to initialise\<close>

lemma startup_uninitialised:
  assumes "\<not> key_set (getenv_GOOGLE_API_KEY env) \<or>
           (\<exists>k e. getenv_GOOGLE_API_KEY env = Some k \<and> configure env k = Some e) \<or>
           (\<exists>e. GenerativeModel env MODEL_NAME = Inl e)"
  shows "\<not> key_set (google_api_key (startup env)) \<or> model (startup env) = None"
  using assms
  by (auto simp: startup_def configure_key_def init_model_def key_set_def Let_def
      split: option.splits sum.splits)

lemma startup_initialised:
  assumes "getenv_GOOGLE_API_KEY env = Some k" and "k \<noteq> []"
    and "configure env k = None" and "GenerativeModel env MODEL_NAME = Inr m"
  shows "startup env = \<lparr>google_api_key = Some k, model = Some m\<rparr>"
  using assms
  by (simp add: startup_def configure_key_def init_model_def key_set_def Let_def)

text \<open>
  Claim C3. When the credential or the model handle is not initialised (the key is
  \<open>None\<close> or empty, or the handle is \<open>None\<close>), every call of the action route
  returns status 500 with an explanatory error and makes no remote call; the page route
  does not look at either and serves the page whenever the template renders.
\<close>

theorem uninitialised_server_degrades:
  assumes "\<not> key_set (google_api_key srv) \<or> model srv = None"
  shows "generate_story_api py_str srv req r =
           (r, ([(ustr ''error'',
                  (if \<not> key_set (google_api_key srv)
                   then ustr ''Google API key not configured on the server.''
                   else ustr ''Google Gemini model '' @ apos @ ustr ''gemini-1.5-flash-latest'' @ apos @
                        ustr '' not initialized. Check server logs.''))], 500)) \<and>
         (render_template (ustr ''index.html'') = Inr html \<longrightarrow>
            index render_template = Inr (html, 200))"
  using assms
  by (auto simp: generate_story_api_def index_def MODEL_NAME_def)

theorem uninitialised_server_degrades_witness:
  "\<not> key_set (google_api_key (startup unset_environment)) \<and>
   generate_story_api sample_str (startup unset_environment) (post_prompt (ustr ''Once upon a time'')) [] =
     ([], ([(ustr ''error'', ustr ''Google API key not configured on the server.'')], 500)) \<and>
   index (\<lambda>name. Inr (ustr ''<html></html>'')) = Inr (ustr ''<html></html>'', 200)"
proof -
  have k: "\<not> key_set (google_api_key (startup unset_environment))"
    by (simp add: startup_def configure_key_def unset_environment_def key_set_def)
  then have h: "\<not> key_set (google_api_key (startup unset_environment)) \<or>
                model (startup unset_environment) = None"
    by simp
  show ?thesis
    using uninitialised_server_degrades [OF h, of sample_str
        "post_prompt (ustr ''Once upon a time'')" "[]" "\<lambda>name. Inr (ustr ''<html></html>'')"
        "ustr ''<html></html>''"] k
    by simp
qed


section \<open>Responses without candidates\<close>

text \<open>
  With no candidates the route means to answer 400: it does so whenever the message can
  be built, that is, when there is no prompt feedback, the block reason is false, or the
  block reason is a member of the enumeration and has a name.
\<close>

lemma no_candidates_400:
  assumes "key_set (google_api_key srv)" and "model srv = Some m"
    and "get_json req = Inr data"
    and "data_get data (ustr ''prompt'') = Inr user_prompt"
    and "truthy user_prompt"
    and "py_len user_prompt = Inr n" and "n \<le> 2000"
    and "snd (m (full_prompt (format_value py_str user_prompt)) generation_config r) = Inr response"
    and "candidates response = []"
    and "block_reason_msg response = Inr msg"
  shows "snd (generate_story_api py_str srv req r) = ([(ustr ''error'', msg)], 400) \<and> msg \<noteq> []"
proof -
  have "snd (generate_story_api py_str srv req r) = ([(ustr ''error'', msg)], 400)"
    using api_reaches_call [OF assms(1-7), of py_str r] assms(8-10)
    by (simp add: answer_def read_response_def)
  moreover have "msg \<noteq> []"
    using assms(10)
    by (auto simp: block_reason_msg_def ustr_append_neq_Nil ustr_Nil_iff
        split: option.splits if_splits sum.splits)
  ultimately show ?thesis by simp
qed

lemma block_reason_msg_member:
  "block_reason_msg \<lparr>candidates = cs, prompt_feedback = Some \<lparr>block_reason = EnumMember v nm\<rparr>,
                     resp_text = t\<rparr> =
     Inr (if v \<noteq> 0 then ustr ''Content generation blocked due to: '' @ nm
          else ustr ''Content generation blocked. The prompt might have violated safety guidelines or resulted in no valid output.'')"
  by (simp add: block_reason_msg_def)

lemma no_candidates_name_raises:
  assumes "key_set (google_api_key srv)" and "model srv = Some m"
    and "get_json req = Inr data"
    and "data_get data (ustr ''prompt'') = Inr user_prompt"
    and "truthy user_prompt"
    and "py_len user_prompt = Inr n" and "n \<le> 2000"
    and "snd (m (full_prompt (format_value py_str user_prompt)) generation_config r) = Inr response"
    and "candidates response = []"
    and "prompt_feedback response = Some fb" and "block_reason fb = PlainInt v" and "v \<noteq> 0"
  shows "snd (generate_story_api py_str srv req r) =
           ([(ustr ''error'',
              ustr ''An error occurred with the Google AI service: '' @ apos @ ustr ''int'' @ apos @
              ustr '' object has no attribute '' @ apos @ ustr ''name'' @ apos)], 500)"
proof -
  have b: "block_reason_msg response = Inl (AttributeError (PInt v) (ustr ''name''))"
    using assms(10-12) by (simp add: block_reason_msg_def)
  have "snd (generate_story_api py_str srv req r) = gemini_error (AttributeError (PInt v) (ustr ''name''))"
    using api_reaches_call [OF assms(1-7), of py_str r] assms(8,9) b
    by (simp add: answer_def read_response_def)
  also have "\<dots> = ([(ustr ''error'',
              ustr ''An error occurred with the Google AI service: '' @ apos @ ustr ''int'' @ apos @
              ustr '' object has no attribute '' @ apos @ ustr ''name'' @ apos)], 500)"
    by (simp add: gemini_error_cases AttributeError_def ustr_def apos_def)
  finally show ?thesis .
qed

text \<open>
  Claim C4 says that every response without candidates gives status 400. The code
  reads \<open>.block_reason.name\<close> inside the inner \<open>try\<close>; for a block reason that
  is a plain \<open>int\<close> (a value the library's enumeration does not know, here 9) the
  attribute does not exist, the \<open>AttributeError\<close> is classified as a remote failure,
  and the route answers 500.
\<close>

theorem unknown_block_reason_500:
  "generate_story_api sample_str
     (stub_server (Inr (no_candidates (Some \<lparr>block_reason = PlainInt 9\<rparr>))))
     (post_prompt (ustr ''Once upon a time'')) [] =
   ([(full_prompt (ustr ''Once upon a time''), generation_config)],
    ([(ustr ''error'',
       ustr ''An error occurred with the Google AI service: '' @ apos @ ustr ''int'' @ apos @
       ustr '' object has no attribute '' @ apos @ ustr ''name'' @ apos)], 500))"
proof -
  let ?resp = "no_candidates (Some \<lparr>block_reason = PlainInt 9\<rparr>)"
  have k: "key_set (google_api_key (stub_server (Inr ?resp)))"
    by (simp add: stub_server_def key_set_def ustr_def)
  have m: "model (stub_server (Inr ?resp)) = Some (stub_model (Inr ?resp))"
    by (simp add: stub_server_def)
  have j: "get_json (post_prompt (ustr ''Once upon a time'')) =
             Inr (PDict [(ustr ''prompt'', PStr (ustr ''Once upon a time''))])"
    by (simp add: post_prompt_def post_def)
  have g: "data_get (PDict [(ustr ''prompt'', PStr (ustr ''Once upon a time''))]) (ustr ''prompt'') =
             Inr (PStr (ustr ''Once upon a time''))"
    by simp
  have t: "truthy (PStr (ustr ''Once upon a time''))"
    by (simp add: ustr_def)
  have l: "py_len (PStr (ustr ''Once upon a time'')) = Inr 16"
    by (simp add: ustr_def)
  have n: "(16::nat) \<le> 2000" by simp
  have o: "snd (stub_model (Inr ?resp)
             (full_prompt (format_value sample_str (PStr (ustr ''Once upon a time''))))
             generation_config []) = Inr ?resp"
    by (simp add: stub_model_def)
  have c: "candidates ?resp = []"
    by (simp add: no_candidates_def)
  have f: "prompt_feedback ?resp = Some \<lparr>block_reason = PlainInt 9\<rparr>"
    by (simp add: no_candidates_def)
  have s: "snd (generate_story_api sample_str (stub_server (Inr ?resp))
             (post_prompt (ustr ''Once upon a time'')) []) =
           ([(ustr ''error'',
              ustr ''An error occurred with the Google AI service: '' @ apos @ ustr ''int'' @ apos @
              ustr '' object has no attribute '' @ apos @ ustr ''name'' @ apos)], 500)"
    using no_candidates_name_raises [OF k m j g t l n o c f] by simp
  have "fst (generate_story_api sample_str (stub_server (Inr ?resp))
             (post_prompt (ustr ''Once upon a time'')) []) =
          [(full_prompt (ustr ''Once upon a time''), generation_config)]"
    using api_reaches_call [OF k m j g t l n, of sample_str "[]"] by (simp add: stub_model_def)
  with s show ?thesis by (simp add: prod_eq_iff)
qed


section \<open>Stories and the arguments of the remote call\<close>

lemma read_response_text:
  assumes "candidates response \<noteq> []"
    and "resp_text response = Inr t"
  shows "read_response response =
           Inr (Story (if strip t = []
                       then ustr ''The AI couldn't come up with a story continuation this time. Try a different prompt!''
                       else strip t))"
  using assms by (simp add: read_response_def Let_def)

text \<open>
  Claim C5. When the remote response has a candidate and its text is empty after
  trimming whitespace, the route returns status 200 with the fixed fallback sentence as
  the story.
\<close>

theorem empty_text_fallback:
  assumes "key_set (google_api_key srv)" and "model srv = Some m"
    and "get_json req = Inr data"
    and "data_get data (ustr ''prompt'') = Inr user_prompt"
    and "truthy user_prompt"
    and "py_len user_prompt = Inr n" and "n \<le> 2000"
    and "snd (m (full_prompt (format_value py_str user_prompt)) generation_config r) = Inr response"
    and "candidates response \<noteq> []"
    and "resp_text response = Inr t"
    and "strip t = []"
  shows "snd (generate_story_api py_str srv req r) =
           ([(ustr ''story'',
              ustr ''The AI couldn't come up with a story continuation this time. Try a different prompt!'')],
            200)"
  using api_reaches_call [OF assms(1-7), of py_str r] read_response_text [OF assms(9,10)] assms(8,11)
  by (simp add: answer_def jsonify_def)

theorem empty_text_fallback_witness:
  "strip (ustr '' \<newline> '') = [] \<and>
   snd (generate_story_api sample_str (stub_server (Inr (one_candidate (ustr '' \<newline> ''))))
          (post_prompt (ustr ''Once upon a time'')) []) =
     ([(ustr ''story'',
        ustr ''The AI couldn't come up with a story continuation this time. Try a different prompt!'')],
      200)"
proof -
  let ?out = "Inr (one_candidate (ustr '' \<newline> ''))"
  have k: "key_set (google_api_key (stub_server ?out))"
    by (simp add: stub_server_def key_set_def ustr_def)
  have m: "model (stub_server ?out) = Some (stub_model ?out)"
    by (simp add: stub_server_def)
  have j: "get_json (post_prompt (ustr ''Once upon a time'')) =
             Inr (PDict [(ustr ''prompt'', PStr (ustr ''Once upon a time''))])"
    by (simp add: post_prompt_def post_def)
  have g: "data_get (PDict [(ustr ''prompt'', PStr (ustr ''Once upon a time''))]) (ustr ''prompt'') =
             Inr (PStr (ustr ''Once upon a time''))"
    by simp
  have t: "truthy (PStr (ustr ''Once upon a time''))"
    by (simp add: ustr_def)
  have l: "py_len (PStr (ustr ''Once upon a time'')) = Inr 16"
    by (simp add: ustr_def)
  have n: "(16::nat) \<le> 2000" by simp
  have r: "snd (stub_model ?out
             (full_prompt (format_value sample_str (PStr (ustr ''Once upon a time''))))
             generation_config []) = Inr (one_candidate (ustr '' \<newline> ''))"
    by (simp add: stub_model_def)
  have c: "candidates (one_candidate (ustr '' \<newline> '')) \<noteq> []"
    by (simp add: one_candidate_def)
  have x: "resp_text (one_candidate (ustr '' \<newline> '')) = Inr (ustr '' \<newline> '')"
    by (simp add: one_candidate_def)
  have s: "strip (ustr '' \<newline> '') = []"
    by (simp add: strip_def isspace_def ustr_def)
  show ?thesis
    using empty_text_fallback [OF k m j g t l n r c x s] s by simp
qed

text \<open>
  Claim C6. When the remote response has a candidate and its text is not empty after
  trimming whitespace, the route returns status 200 with the trimmed text as the story.
  The instance of the spec, a prompt \<open>Once upon a time\<close> against a stub service whose
  one candidate has the text \<open> A hero arose. \<close>, is the witness below.
\<close>

theorem trimmed_text_story:
  assumes "key_set (google_api_key srv)" and "model srv = Some m"
    and "get_json req = Inr data"
    and "data_get data (ustr ''prompt'') = Inr user_prompt"
    and "truthy user_prompt"
    and "py_len user_prompt = Inr n" and "n \<le> 2000"
    and "snd (m (full_prompt (format_value py_str user_prompt)) generation_config r) = Inr response"
    and "candidates response \<noteq> []"
    and "resp_text response = Inr t"
    and "strip t \<noteq> []"
  shows "snd (generate_story_api py_str srv req r) = ([(ustr ''story'', strip t)], 200)"
  using api_reaches_call [OF assms(1-7), of py_str r] read_response_text [OF assms(9,10)] assms(8,11)
  by (simp add: answer_def jsonify_def)

theorem trimmed_text_story_witness:
  "generate_story_api sample_str (stub_server (Inr (one_candidate (ustr '' A hero arose. ''))))
          (post_prompt (ustr ''Once upon a time'')) [] =
     ([(full_prompt (ustr ''Once upon a time''), generation_config)],
      ([(ustr ''story'', ustr ''A hero arose.'')], 200))"
proof -
  let ?out = "Inr (one_candidate (ustr '' A hero arose. ''))"
  have k: "key_set (google_api_key (stub_server ?out))"
    by (simp add: stub_server_def key_set_def ustr_def)
  have m: "model (stub_server ?out) = Some (stub_model ?out)"
    by (simp add: stub_server_def)
  have j: "get_json (post_prompt (ustr ''Once upon a time'')) =
             Inr (PDict [(ustr ''prompt'', PStr (ustr ''Once upon a time''))])"
    by (simp add: post_prompt_def post_def)
  have g: "data_get (PDict [(ustr ''prompt'', PStr (ustr ''Once upon a time''))]) (ustr ''prompt'') =
             Inr (PStr (ustr ''Once upon a time''))"
    by simp
  have t: "truthy (PStr (ustr ''Once upon a time''))"
    by (simp add: ustr_def)
  have l: "py_len (PStr (ustr ''Once upon a time'')) = Inr 16"
    by (simp add: ustr_def)
  have n: "(16::nat) \<le> 2000" by simp
  have r: "snd (stub_model ?out
             (full_prompt (format_value sample_str (PStr (ustr ''Once upon a time''))))
             generation_config []) = Inr (one_candidate (ustr '' A hero arose. ''))"
    by (simp add: stub_model_def)
  have c: "candidates (one_candidate (ustr '' A hero arose. '')) \<noteq> []"
    by (simp add: one_candidate_def)
  have x: "resp_text (one_candidate (ustr '' A hero arose. '')) = Inr (ustr '' A hero arose. '')"
    by (simp add: one_candidate_def)
  have s: "strip (ustr '' A hero arose. '') = ustr ''A hero arose.''"
    by (simp add: strip_def isspace_def ustr_def)
  have s': "strip (ustr '' A hero arose. '') \<noteq> []"
    unfolding s by (simp add: ustr_def)
  have f: "fst (generate_story_api sample_str (stub_server ?out) (post_prompt (ustr ''Once upon a time'')) []) =
             [(full_prompt (ustr ''Once upon a time''), generation_config)]"
    using api_reaches_call [OF k m j g t l n, of sample_str "[]"] by (simp add: stub_model_def)
  show ?thesis
    using trimmed_text_story [OF k m j g t l n r c x s'] s f
    by (simp add: prod_eq_iff)
qed

text \<open>
  Claim C7. For every request that passes validation, the remote service is invoked
  once: the state of the service after the route is the state left by the call of the
  handle on the prompt and the configuration below, and the answer of the route is read
  off what that call returned or raised. The prompt is the fixed instruction text with
  the rendering of the user's prompt between double quotes, which is the user's text
  verbatim when the prompt is a string. The configuration is fixed: at most 300 output
  tokens, temperature 0.8, top-p 0.95, top-k 40; the candidate count is left unset, so
  the service's default of a single candidate applies.
\<close>

theorem remote_call_arguments:
  fixes py_str :: "pyval \<Rightarrow> pystr" and user_prompt :: pyval
  defines "txt \<equiv> format_value py_str user_prompt"
  defines "p \<equiv> ustr ''You are a creative storyteller.\<newline>User's story starter: '' @ [34] @ txt @ [34] @
             ustr ''\<newline>Continue this story, making it engaging and imaginative. Keep the continuation concise, around 150-200 words.\<newline>Story continuation:''"
  defines "c \<equiv> \<lparr>candidate_count = None, stop_sequences = None, max_output_tokens = Some 300,
                 temperature = Some (8 / 10), top_p = Some (95 / 100), top_k = Some 40\<rparr>"
  assumes "key_set (google_api_key srv)" and "model srv = Some m"
    and "get_json req = Inr data"
    and "data_get data (ustr ''prompt'') = Inr user_prompt"
    and "truthy user_prompt"
    and "py_len user_prompt = Inr n" and "n \<le> 2000"
  shows "generate_story_api py_str srv req r =
           (fst (m p c r),
            answer (case snd (m p c r) of
                      Inl e \<Rightarrow> Inl e
                    | Inr response \<Rightarrow> read_response response)) \<and>
         (\<forall>s. user_prompt = PStr s \<longrightarrow> txt = s) \<and>
         requested_candidates c = 1"
proof -
  have "generate_story_api py_str srv req r =
           (fst (m p c r),
            answer (case snd (m p c r) of
                      Inl e \<Rightarrow> Inl e
                    | Inr response \<Rightarrow> read_response response))"
    using api_reaches_call [OF assms(4-10), of py_str r]
    by (simp add: p_def c_def txt_def full_prompt_def generation_config_def dquote_def)
  moreover have "\<forall>s. user_prompt = PStr s \<longrightarrow> txt = s"
    by (simp add: txt_def)
  moreover have "requested_candidates c = 1"
    by (simp add: c_def requested_candidates_def)
  ultimately show ?thesis by simp
qed

theorem remote_call_arguments_witness:
  "generate_story_api sample_str (stub_server (Inr (one_candidate (ustr '' A hero arose. ''))))
          (post_prompt (ustr ''Hi'')) [] =
     ([(ustr ''You are a creative storyteller.\<newline>User's story starter: '' @ [34] @ ustr ''Hi'' @ [34] @
        ustr ''\<newline>Continue this story, making it engaging and imaginative. Keep the continuation concise, around 150-200 words.\<newline>Story continuation:'',
        \<lparr>candidate_count = None, stop_sequences = None, max_output_tokens = Some 300,
         temperature = Some (8 / 10), top_p = Some (95 / 100), top_k = Some 40\<rparr>)],
      ([(ustr ''story'', ustr ''A hero arose.'')], 200))"
proof -
  let ?out = "Inr (one_candidate (ustr '' A hero arose. ''))"
  have k: "key_set (google_api_key (stub_server ?out))"
    by (simp add: stub_server_def key_set_def ustr_def)
  have m: "model (stub_server ?out) = Some (stub_model ?out)"
    by (simp add: stub_server_def)
  have j: "get_json (post_prompt (ustr ''Hi'')) = Inr (PDict [(ustr ''prompt'', PStr (ustr ''Hi''))])"
    by (simp add: post_prompt_def post_def)
  have g: "data_get (PDict [(ustr ''prompt'', PStr (ustr ''Hi''))]) (ustr ''prompt'') = Inr (PStr (ustr ''Hi''))"
    by simp
  have t: "truthy (PStr (ustr ''Hi''))" by (simp add: ustr_def)
  have l: "py_len (PStr (ustr ''Hi'')) = Inr 2" by (simp add: ustr_def)
  have n: "(2::nat) \<le> 2000" by simp
  have s: "strip (ustr '' A hero arose. '') = ustr ''A hero arose.''"
    by (simp add: strip_def isspace_def ustr_def)
  have a: "answer (read_response (one_candidate (ustr '' A hero arose. ''))) =
             ([(ustr ''story'', ustr ''A hero arose.'')], 200)"
    by (simp add: answer_def read_response_def one_candidate_def s jsonify_def ustr_Nil_iff)
  show ?thesis
    using remote_call_arguments [OF k m j g t l n, of sample_str "[]"] a
    by (simp add: stub_model_def)
qed


section \<open>Exceptions that leave the handler's body\<close>

lemma api_body_raises:
  assumes "key_set (google_api_key srv)" and "model srv = Some m"
    and "handler_body py_str m req r = (r', Inl e)"
  shows "generate_story_api py_str srv req r =
           (r', ([(ustr ''error'', ustr ''An internal server error occurred: '' @ exn_str e)], 500))"
  using assms by (simp add: generate_story_api_def)

text \<open>
  Claim C8, as the code has it. Every exception that leaves the body of the handler's
  \<open>try\<close> (one the remote-failure rules did not classify) is caught: the route
  returns status 500 with the single key \<open>error\<close>, whose string is the fixed prefix
  \<open>An internal server error occurred: \<close> followed by the exception's own text
  \<open>str(e)\<close>, and nothing else.
\<close>

theorem unclassified_exception_500:
  assumes "key_set (google_api_key srv)" and "model srv = Some m"
    and "handler_body py_str m req r = (r', Inl e)"
  shows "snd (generate_story_api py_str srv req r) =
           ([(ustr ''error'', ustr ''An internal server error occurred: '' @ exn_str e)], 500)"
  using api_body_raises [OF assms] by simp

theorem unclassified_exception_500_witness:
  "handler_body sample_str (stub_model (Inl quota_exn)) (post (PInt 5)) [] =
     ([], Inl (AttributeError (PInt 5) (ustr ''get''))) \<and>
   snd (generate_story_api sample_str (stub_server (Inl quota_exn)) (post (PInt 5)) []) =
     ([(ustr ''error'',
        ustr ''An internal server error occurred: '' @
        exn_str (AttributeError (PInt 5) (ustr ''get'')))], 500)"
proof -
  have k: "key_set (google_api_key (stub_server (Inl quota_exn)))"
    by (simp add: stub_server_def key_set_def ustr_def)
  have m: "model (stub_server (Inl quota_exn)) = Some (stub_model (Inl quota_exn))"
    by (simp add: stub_server_def)
  have h: "handler_body sample_str (stub_model (Inl quota_exn)) (post (PInt 5)) [] =
             ([], Inl (AttributeError (PInt 5) (ustr ''get'')))"
    by (simp add: handler_body_def post_def)
  show ?thesis
    using unclassified_exception_500 [OF k m h] h by simp
qed

text \<open>
  Claim C8 as the spec states it calls the message generic. It is not: two requests
  that fail in the same way, with an array and with a number as body, get two different
  messages, each quoting the text of its exception.
\<close>

theorem internal_error_message_not_generic:
  "snd (generate_story_api sample_str (stub_server (Inl quota_exn)) (post (PList [])) []) =
     ([(ustr ''error'',
        ustr ''An internal server error occurred: '' @ apos @ ustr ''list'' @ apos @
        ustr '' object has no attribute '' @ apos @ ustr ''get'' @ apos)], 500) \<and>
   snd (generate_story_api sample_str (stub_server (Inl quota_exn)) (post (PInt 5)) []) =
     ([(ustr ''error'',
        ustr ''An internal server error occurred: '' @ apos @ ustr ''int'' @ apos @
        ustr '' object has no attribute '' @ apos @ ustr ''get'' @ apos)], 500) \<and>
   snd (generate_story_api sample_str (stub_server (Inl quota_exn)) (post (PList [])) []) \<noteq>
   snd (generate_story_api sample_str (stub_server (Inl quota_exn)) (post (PInt 5)) [])"
  by (simp add: generate_story_api_def handler_body_def stub_server_def post_def key_set_def
      AttributeError_def ustr_def apos_def)


section \<open>Bodies that are not JSON objects\<close>

text \<open>
  Claim C10. On a configured server, a request whose body is not a JSON object gets
  status 500 from the catch-all handler, not 400, and the remote service is left as it
  was: either \<open>get_json\<close> raises (the body is not JSON), or it returns a value that is
  not a dict (an array, a number, a string, a boolean, \<open>None\<close>) and the lookup of
  \<open>get\<close> raises an \<open>AttributeError\<close>, both before the prompt is validated.
\<close>

theorem non_object_body_500:
  assumes "key_set (google_api_key srv)" and "model srv = Some m"
  shows "(get_json req = Inl e \<longrightarrow>
            generate_story_api py_str srv req r =
              (r, ([(ustr ''error'', ustr ''An internal server error occurred: '' @ exn_str e)], 500))) \<and>
         (get_json req = Inr v \<and> (\<forall>kv. v \<noteq> PDict kv) \<longrightarrow>
            generate_story_api py_str srv req r =
              (r, ([(ustr ''error'',
                     ustr ''An internal server error occurred: '' @ apos @ type_name v @ apos @
                     ustr '' object has no attribute '' @ apos @ ustr ''get'' @ apos)], 500)))"
proof (intro conjI impI)
  assume "get_json req = Inl e"
  then have "handler_body py_str m req r = (r, Inl e)"
    by (simp add: handler_body_def)
  then show "generate_story_api py_str srv req r =
      (r, ([(ustr ''error'', ustr ''An internal server error occurred: '' @ exn_str e)], 500))"
    using api_body_raises [OF assms, of py_str req r r e] by simp
next
  assume a: "get_json req = Inr v \<and> (\<forall>kv. v \<noteq> PDict kv)"
  then have "data_get v (ustr ''prompt'') = Inl (AttributeError v (ustr ''get''))"
    by (cases v) simp_all
  with a have "handler_body py_str m req r = (r, Inl (AttributeError v (ustr ''get'')))"
    by (simp add: handler_body_def)
  then show "generate_story_api py_str srv req r =
      (r, ([(ustr ''error'',
             ustr ''An internal server error occurred: '' @ apos @ type_name v @ apos @
             ustr '' object has no attribute '' @ apos @ ustr ''get'' @ apos)], 500))"
    using api_body_raises [OF assms, of py_str req r r "AttributeError v (ustr ''get'')"]
    by (simp add: AttributeError_def)
qed

theorem non_object_body_500_witness:
  "generate_story_api sample_str (stub_server (Inr (one_candidate (ustr ''x''))))
       \<lparr>get_json = Inl bad_request_exn\<rparr> [] =
     ([], ([(ustr ''error'',
             ustr ''An internal server error occurred: '' @
             ustr ''400 Bad Request: The browser (or proxy) sent a request that this server could not understand.'')],
           500)) \<and>
   generate_story_api sample_str (stub_server (Inr (one_candidate (ustr ''x''))))
       (post (PList [PStr (ustr ''prompt'')])) [] =
     ([], ([(ustr ''error'',
             ustr ''An internal server error occurred: '' @ apos @ ustr ''list'' @ apos @
             ustr '' object has no attribute '' @ apos @ ustr ''get'' @ apos)], 500)) \<and>
   generate_story_api sample_str (stub_server (Inr (one_candidate (ustr ''x''))))
       (post (PStr (ustr ''Once upon a time''))) [] =
     ([], ([(ustr ''error'',
             ustr ''An internal server error occurred: '' @ apos @ ustr ''str'' @ apos @
             ustr '' object has no attribute '' @ apos @ ustr ''get'' @ apos)], 500))"
proof -
  let ?srv = "stub_server (Inr (one_candidate (ustr ''x'')))"
  have k: "key_set (google_api_key ?srv)"
    by (simp add: stub_server_def key_set_def ustr_def)
  have m: "model ?srv = Some (stub_model (Inr (one_candidate (ustr ''x''))))"
    by (simp add: stub_server_def)
  show ?thesis
    using non_object_body_500 [OF k m, of "\<lparr>get_json = Inl bad_request_exn\<rparr>" bad_request_exn sample_str "[]" PNone]
      non_object_body_500 [OF k m, of "post (PList [PStr (ustr ''prompt'')])" bad_request_exn sample_str "[]"
        "PList [PStr (ustr ''prompt'')]"]
      non_object_body_500 [OF k m, of "post (PStr (ustr ''Once upon a time''))" bad_request_exn sample_str "[]"
        "PStr (ustr ''Once upon a time'')"]
    by (simp add: post_def bad_request_exn_def)
qed


section \<open>The shape of every response\<close>

lemma gemini_error_shape:
  "\<exists>msg status. gemini_error e = ([(ustr ''error'', msg)], status) \<and> status \<in> {400, 401, 429, 500}"
  by (simp add: gemini_error_cases)

lemma read_response_Return:
  assumes "read_response response = Inr (Return x)"
  shows "\<exists>msg. x = ([(ustr ''error'', msg)], 400)"
  using assms
  by (auto simp: read_response_def Let_def split: sum.splits if_splits)

lemma answer_shape:
  assumes "out = Inl e \<or> (\<exists>response. out = read_response response)"
  shows "(\<exists>s. answer out = ([(ustr ''story'', s)], 200)) \<or>
         (\<exists>msg status. answer out = ([(ustr ''error'', msg)], status) \<and> status \<in> {400, 401, 429, 500})"
proof (cases out)
  case (Inl e')
  then show ?thesis using gemini_error_shape [of e'] by (auto simp: answer_def)
next
  case (Inr i)
  show ?thesis
  proof (cases i)
    case (Return x)
    with Inr assms obtain response where "read_response response = Inr (Return x)" by auto
    then obtain msg where "x = ([(ustr ''error'', msg)], 400)"
      using read_response_Return by blast
    with Inr Return show ?thesis by (simp add: answer_def)
  next
    case (Story s)
    with Inr show ?thesis by (simp add: answer_def jsonify_def)
  qed
qed

lemma handler_body_shape:
  assumes "handler_body py_str m req r = (r', Inr x)"
  shows "(\<exists>s. x = ([(ustr ''story'', s)], 200)) \<or>
         (\<exists>msg status. x = ([(ustr ''error'', msg)], status) \<and> status \<in> {400, 401, 429, 500})"
proof -
  consider
      (missing) "x = ([(ustr ''error'', ustr ''Prompt is missing'')], 400)"
    | (long) "x = ([(ustr ''error'', ustr ''Prompt is too long (max 2000 characters for this demo)'')], 400)"
    | (called) p out where "call_gemini m p r = (r', out)" and "x = answer out"
    using assms
    by (auto simp: handler_body_def split: sum.splits if_splits prod.splits)
  then show ?thesis
  proof cases
    case missing
    then show ?thesis by simp
  next
    case long
    then show ?thesis by simp
  next
    case called
    then have o: "out = snd (call_gemini m p r)" by simp
    have "(\<exists>e. out = Inl e) \<or> (\<exists>response. out = read_response response)"
      unfolding o by (cases "snd (m p generation_config r)") (auto simp: call_gemini_eq)
    then obtain e where "out = Inl e \<or> (\<exists>response. out = read_response response)"
      by auto
    then show ?thesis
      using answer_shape [of out e] called by simp
  qed
qed

text \<open>
  Claim C9. Whatever the server state, the request and the remote service do, the
  response of the action route is a JSON object with exactly one key: either status 200
  with the key \<open>story\<close>, or one of the statuses 400, 401, 429 and 500 with the key
  \<open>error\<close>.
\<close>

theorem response_shape:
  "(\<exists>s. snd (generate_story_api py_str srv req r) = ([(ustr ''story'', s)], 200)) \<or>
   (\<exists>msg status. snd (generate_story_api py_str srv req r) = ([(ustr ''error'', msg)], status) \<and>
      status \<in> {400, 401, 429, 500})"
proof (cases "key_set (google_api_key srv) \<and> model srv \<noteq> None")
  case False
  then show ?thesis
    by (auto simp: generate_story_api_def)
next
  case True
  then obtain m where m: "model srv = Some m" and k: "key_set (google_api_key srv)" by auto
  obtain r' res where h: "handler_body py_str m req r = (r', res)"
    by (cases "handler_body py_str m req r")
  show ?thesis
  proof (cases res)
    case (Inl e)
    then show ?thesis
      using api_body_raises [OF k m, of py_str req r r' e] h by simp
  next
    case (Inr x)
    then have "snd (generate_story_api py_str srv req r) = x"
      using h k m by (simp add: generate_story_api_def)
    then show ?thesis
      using handler_body_shape [of py_str m req r r' x] h Inr by simp
  qed
qed

theorem response_shape_witness:
  "(\<exists>s. snd (generate_story_api sample_str (stub_server (Inl bad_request_exn))
             (post_prompt (ustr ''Once upon a time'')) []) = ([(ustr ''story'', s)], 200)) \<or>
   (\<exists>msg status. snd (generate_story_api sample_str (stub_server (Inl bad_request_exn))
             (post_prompt (ustr ''Once upon a time'')) []) = ([(ustr ''error'', msg)], status) \<and>
      status \<in> {400, 401, 429, 500})"
  by (rule response_shape)

end
